theory Spec2Isabelle
  imports Complex_Main "HOL-Library.Log_Nat"
begin

section \<open>Interface compliance: the schema check of \<open>run_compliance.py\<close>\<close>

subsection \<open>Instances\<close>

text \<open>
  The values \<open>jsonschema\<close> is given are Python objects built from dicts, lists, strings,
  numbers, booleans and \<open>None\<close>. A dict is an association list (insertion order, looked up
  with \<open>map_of\<close>); a finite float is the rational it denotes.
\<close>

datatype json =
    JNull
  | JBool bool
  | JInt int
  | JFloat rat
  | JStr string
  | JArr "json list"
  | JObj "(string \<times> json) list"

subsection \<open>Schemas\<close>

text \<open>
  A schema is a dict of keywords. \<open>jsonschema\<close> walks \<open>schema.items()\<close> in insertion
  order, so a schema is the list of its keywords in the order the source writes them.
  Only the keywords that \<open>VECTOR_SCHEMA\<close> uses are modelled.
\<close>

datatype jtype = T_object | T_array | T_string | T_number

datatype schema = Schema "keyword list"
and keyword =
    K_type jtype
  | K_properties "(string \<times> schema) list"
  | K_items schema
  | K_minItems nat
  | K_maxItems nat
  | K_required "string list"

text \<open>\<open>VECTOR_SCHEMA\<close>, lines 18 to 31 of \<open>run_compliance.py\<close>.\<close>

definition VECTOR_SCHEMA :: schema where
  "VECTOR_SCHEMA = Schema
     [ K_type T_object,
       K_properties
         [ (''id'', Schema [K_type T_string]),
           (''vector'', Schema
              [ K_type T_array,
                K_items (Schema [K_type T_number]),
                K_minItems 1536,
                K_maxItems 1536 ]),
           (''payload'', Schema [K_type T_object]) ],
       K_required [''id'', ''vector''] ]"

subsection \<open>Validation errors\<close>

text \<open>
  A \<open>ValidationError\<close> carries the keyword that failed (\<open>validator\<close>), the keyword's
  value in the schema (\<open>validator_value\<close>), the offending instance and the path from the
  root of the instance to it. The keyword and its value are one constructor of \<open>failure\<close>:
  \<^item> \<open>Not_of_type t\<close>: keyword \<open>type\<close>, message \<open>... is not of type 't'\<close>;
  \<^item> \<open>Required_property p\<close>: keyword \<open>required\<close>, message \<open>'p' is a required property\<close>;
  \<^item> \<open>Too_short n\<close>: keyword \<open>minItems\<close> with value \<open>n\<close>, message \<open>... is too short\<close>;
  \<^item> \<open>Too_long n\<close>: keyword \<open>maxItems\<close> with value \<open>n\<close>, message \<open>... is too long\<close>.
\<close>

datatype path_elem = Key string | Index nat

datatype failure =
    Not_of_type jtype
  | Required_property string
  | Too_short nat
  | Too_long nat

record ValidationError =
  failed :: failure
  instance_of :: json
  path :: "path_elem list"
  matches_type :: bool

subsection \<open>The type checker\<close>

text \<open>
  \<open>is_type\<close> of the default type checker: \<open>number\<close> is an int or a float that is not a
  bool, \<open>string\<close> a str, \<open>object\<close> a dict, \<open>array\<close> a list.
\<close>

fun is_type :: "json \<Rightarrow> jtype \<Rightarrow> bool" where
  "is_type (JObj _) T_object = True"
| "is_type (JArr _) T_array = True"
| "is_type (JStr _) T_string = True"
| "is_type (JInt _) T_number = True"
| "is_type (JFloat _) T_number = True"
| "is_type _ _ = False"

text \<open>The declared \<open>type\<close> of a schema, if it has one (\<open>schema["type"]\<close>).\<close>

fun schema_type :: "keyword list \<Rightarrow> jtype option" where
  "schema_type [] = None"
| "schema_type (K_type t # ks) = Some t"
| "schema_type (_ # ks) = schema_type ks"

text \<open>
  \<open>descend\<close> prefixes the path of every error of a sub-instance with the property name or
  the index it was reached by.
\<close>

definition under :: "path_elem \<Rightarrow> ValidationError list \<Rightarrow> ValidationError list" where
  "under p es = map (\<lambda>e. e\<lparr>path := p # path e\<rparr>) es"

subsection \<open>\<open>iter_errors\<close>\<close>

text \<open>
  \<open>iter_errors\<close> yields the errors of every keyword of the schema, keyword by keyword:
  \<^item> \<open>type\<close>: one error unless the instance has the type;
  \<^item> \<open>properties\<close>: for a dict, each listed property that is present is checked against
    its subschema, in the schema's order; anything else passes;
  \<^item> \<open>items\<close>: for a list, every element is checked against the subschema;
  \<^item> \<open>minItems\<close>, \<open>maxItems\<close>: for a list, its length is compared; anything else passes;
  \<^item> \<open>required\<close>: for a dict, one error for each required property that is absent.
  \<open>matches_type\<close> records whether the instance has the type its own schema declares
  (false when the schema declares none), which \<open>best_match\<close> consults.
\<close>

fun missing_required :: "(string \<times> json) list \<Rightarrow> string list \<Rightarrow> failure list" where
  "missing_required kvs [] = []"
| "missing_required kvs (p # ps) =
     (case map_of kvs p of
        None \<Rightarrow> Required_property p # missing_required kvs ps
      | Some _ \<Rightarrow> missing_required kvs ps)"

fun iter_errors :: "json \<Rightarrow> schema \<Rightarrow> ValidationError list"
and keywords_errors :: "bool \<Rightarrow> json \<Rightarrow> keyword list \<Rightarrow> ValidationError list"
and keyword_errors :: "bool \<Rightarrow> json \<Rightarrow> keyword \<Rightarrow> ValidationError list"
and properties_errors :: "(string \<times> json) list \<Rightarrow> (string \<times> schema) list \<Rightarrow> ValidationError list"
and items_errors :: "nat \<Rightarrow> json list \<Rightarrow> schema \<Rightarrow> ValidationError list"
where
  "iter_errors inst (Schema ks) =
     keywords_errors (case schema_type ks of None \<Rightarrow> False | Some t \<Rightarrow> is_type inst t) inst ks"
| "keywords_errors mt inst [] = []"
| "keywords_errors mt inst (k # ks) = keyword_errors mt inst k @ keywords_errors mt inst ks"
| "keyword_errors mt inst (K_type t) =
     (if is_type inst t then []
      else [\<lparr>failed = Not_of_type t, instance_of = inst, path = [], matches_type = mt\<rparr>])"
| "keyword_errors mt inst (K_properties props) =
     (case inst of JObj kvs \<Rightarrow> properties_errors kvs props | _ \<Rightarrow> [])"
| "keyword_errors mt inst (K_items s) =
     (case inst of JArr xs \<Rightarrow> items_errors 0 xs s | _ \<Rightarrow> [])"
| "keyword_errors mt inst (K_minItems n) =
     (case inst of
        JArr xs \<Rightarrow>
          (if length xs < n
           then [\<lparr>failed = Too_short n, instance_of = inst, path = [], matches_type = mt\<rparr>]
           else [])
      | _ \<Rightarrow> [])"
| "keyword_errors mt inst (K_maxItems n) =
     (case inst of
        JArr xs \<Rightarrow>
          (if length xs > n
           then [\<lparr>failed = Too_long n, instance_of = inst, path = [], matches_type = mt\<rparr>]
           else [])
      | _ \<Rightarrow> [])"
| "keyword_errors mt inst (K_required ps) =
     (case inst of
        JObj kvs \<Rightarrow>
          map (\<lambda>f. \<lparr>failed = f, instance_of = inst, path = [], matches_type = mt\<rparr>)
            (missing_required kvs ps)
      | _ \<Rightarrow> [])"
| "properties_errors kvs [] = []"
| "properties_errors kvs ((p, s) # props) =
     (case map_of kvs p of
        None \<Rightarrow> properties_errors kvs props
      | Some v \<Rightarrow> under (Key p) (iter_errors v s) @ properties_errors kvs props)"
| "items_errors i [] s = []"
| "items_errors i (x # xs) s = under (Index i) (iter_errors x s) @ items_errors (Suc i) xs s"

subsection \<open>\<open>best_match\<close> and \<open>validate\<close>\<close>

text \<open>
  \<open>best_match\<close> is Python's \<open>max\<close> of the errors under the key \<open>relevance\<close>, which returns
  the first error among those with the greatest key. For a schema without \<open>anyOf\<close> and
  \<open>oneOf\<close> the key is the pair of the negated path length and \<open>not _matches_type()\<close>,
  compared lexicographically: a shallower error wins, and at equal depth an error whose
  instance does not have its schema's type wins.
\<close>

definition relevance :: "ValidationError \<Rightarrow> int \<times> bool" where
  "relevance e = (- int (length (path e)), \<not> matches_type e)"

definition key_less :: "int \<times> bool \<Rightarrow> int \<times> bool \<Rightarrow> bool" where
  "key_less a b = (fst a < fst b \<or> (fst a = fst b \<and> \<not> snd a \<and> snd b))"

fun max_by_relevance :: "ValidationError \<Rightarrow> ValidationError list \<Rightarrow> ValidationError" where
  "max_by_relevance best [] = best"
| "max_by_relevance best (e # es) =
     max_by_relevance (if key_less (relevance best) (relevance e) then e else best) es"

fun best_match :: "ValidationError list \<Rightarrow> ValidationError option" where
  "best_match [] = None"
| "best_match (e # es) = Some (max_by_relevance e es)"

text \<open>
  \<open>jsonschema.validate(instance, schema)\<close> raises the best match of the errors, and
  returns \<open>None\<close> when there is none.
\<close>

definition validate :: "json \<Rightarrow> schema \<Rightarrow> ValidationError + unit" where
  "validate inst s =
     (case best_match (iter_errors inst s) of
        None \<Rightarrow> Inr ()
      | Some e \<Rightarrow> Inl e)"

section \<open>Floating-point numbers\<close>

text \<open>
  A finite double or single-precision float is the rational number it denotes. IEEE 754
  rounding to nearest, ties to even, into a binary format with \<open>p\<close> bits of precision and
  least normal exponent \<open>emin\<close>: the binade of \<open>x\<close> is \<open>\<lfloor>log\<^sub>2 \<bar>x\<bar>\<rfloor>\<close>, held at \<open>emin\<close> for
  the subnormal numbers and zero; the format's numbers in that binade are the multiples
  of the quantum \<open>2 ^ (binade - (p - 1))\<close>, and \<open>x\<close> is rounded to the nearest of them.
\<close>

definition round_half_even :: "rat \<Rightarrow> int" where
  "round_half_even x =
     (let f = \<lfloor>x\<rfloor>; r = x - of_int f
      in if r < 1/2 then f else if 1/2 < r then f + 1 else if even f then f else f + 1)"

definition binade :: "int \<Rightarrow> rat \<Rightarrow> int" where
  "binade emin x =
     (let y = \<bar>x\<bar> * 2 powi (- emin)
      in if y < 1 then emin else emin + bitlen \<lfloor>y\<rfloor> - 1)"

definition quantum :: "nat \<Rightarrow> int \<Rightarrow> rat \<Rightarrow> rat" where
  "quantum p emin x = 2 powi (binade emin x - (int p - 1))"

definition round_to :: "nat \<Rightarrow> int \<Rightarrow> rat \<Rightarrow> rat" where
  "round_to p emin x = of_int (round_half_even (x / quantum p emin x)) * quantum p emin x"

text \<open>
  \<open>to_double\<close> is the rounding into binary64 that a float literal, a true division and
  a float subtraction perform on their exact result; \<open>to_single\<close> is the rounding into
  binary32 of C's cast \<open>(float)x\<close>. Neither bounds the exponent from above: a caller that
  can overflow checks the rounded value against the format's range.
\<close>

definition to_double :: "rat \<Rightarrow> rat" where
  "to_double x = round_to 53 (- 1022) x"

definition to_single :: "rat \<Rightarrow> rat" where
  "to_single x = round_to 24 (- 126) x"

datatype value_error =
    Inhomogeneous_shape
  | Shapes_not_aligned "nat list" "nat list"

datatype py_error =
    OverflowError
  | ZeroDivisionError
  | IndexError
  | ValueError value_error

text \<open>
  \<open>struct.pack('<f', x)\<close> casts the double to a C float and raises \<open>OverflowError\<close> when
  the cast of a finite double is infinite, that is when the rounded value reaches \<open>2^128\<close>.
  The four bytes are modelled by the single-precision number they hold, which
  \<open>struct.unpack('<f', ...)[0]\<close> returns as a double, exactly.
\<close>

definition struct_pack_f :: "rat \<Rightarrow> py_error + rat" where
  "struct_pack_f x =
     (let y = to_single x in if 2 ^ 128 \<le> \<bar>y\<bar> then Inl OverflowError else Inr y)"

definition struct_unpack_f :: "rat \<Rightarrow> rat" where
  "struct_unpack_f binary_data = binary_data"

text \<open>
  Python's true division of two ints is the correctly rounded quotient, and raises
  \<open>OverflowError\<close> when it is too large for a double.
\<close>

definition int_truediv :: "int \<Rightarrow> int \<Rightarrow> py_error + rat" where
  "int_truediv a b =
     (if b = 0 then Inl ZeroDivisionError
      else let r = to_double (of_int a / of_int b)
           in if 2 ^ 1024 \<le> \<bar>r\<bar> then Inl OverflowError else Inr r)"

text \<open>
  The division and the product of two finite floats, where the result is finite (as it
  is wherever these programs divide or multiply: see \<open>run_memory_test\<close>).
\<close>

definition float_truediv :: "rat \<Rightarrow> rat \<Rightarrow> py_error + rat" where
  "float_truediv a b = (if b = 0 then Inl ZeroDivisionError else Inr (to_double (a / b)))"

definition float_mul :: "rat \<Rightarrow> rat \<Rightarrow> rat" where
  "float_mul a b = to_double (a * b)"

section \<open>The precision audit and \<open>run_compliance\<close>\<close>

text \<open>The literals \<open>0.123456789123456789\<close> and \<open>1e-7\<close>, as the doubles they are read as.\<close>

definition original_val :: rat where
  "original_val = to_double (123456789123456789 / 10 ^ 18)"

definition precision_threshold :: rat where
  "precision_threshold = to_double (1 / 10 ^ 7)"

datatype status = PASS | FAIL

record precision_row =
  input_value :: rat
  stored_value :: rat
  precision_delta :: rat
  precision_status :: status

text \<open>
  Lines 70 to 94 of \<open>run_compliance.py\<close>, for any double in place of \<open>original_val\<close>:
  pack, unpack, the float subtraction and its absolute value, and the comparison with
  \<open>1e-7\<close>. The subtraction of a double and its own single-precision rounding is finite.
\<close>

definition precision_audit :: "rat \<Rightarrow> py_error + precision_row" where
  "precision_audit v =
     (case struct_pack_f v of
        Inl e \<Rightarrow> Inl e
      | Inr binary_data \<Rightarrow>
          (let restored_val = struct_unpack_f binary_data;
               delta = \<bar>to_double (v - restored_val)\<bar>
           in Inr \<lparr>input_value = v, stored_value = restored_val, precision_delta = delta,
                   precision_status = (if delta < precision_threshold then PASS else FAIL)\<rparr>))"

text \<open>
  What \<open>run_compliance\<close> prints, in order, and the exception it ends with, if any.
\<close>

datatype console_output =
    Title_panel
  | Test1_heading
  | Schema_failure ValidationError
  | Compliance_table "(string \<times> status) list"
  | Test2_heading
  | Test2_note
  | Precision_table precision_row
  | Verified_panel

record run =
  printed :: "console_output list"
  raised :: "py_error option"

definition mock_request :: "rat list \<Rightarrow> json" where
  "mock_request vector =
     JObj [(''id'', JStr ''vec_8a7b9c''),
           (''vector'', JArr (map JFloat vector)),
           (''payload'', JObj [(''source'', JStr ''whitepaper_test'')])]"

text \<open>
  \<open>run_compliance\<close> with the request and the audited value as parameters. The source
  builds the request from \<open>generate_vector()\<close> and audits \<open>original_val\<close>:
  that is \<open>run_compliance\<close> below, for the vector the generator returned.
  The \<open>except Exception\<close> branch prints the schema failure and returns.
\<close>

definition run_compliance_on :: "json \<Rightarrow> rat \<Rightarrow> run" where
  "run_compliance_on request v =
     (case validate request VECTOR_SCHEMA of
        Inl e \<Rightarrow>
          \<lparr>printed = [Title_panel, Test1_heading, Schema_failure e], raised = None\<rparr>
      | Inr _ \<Rightarrow>
          (let table = [(''JSON Structure'', PASS),
                        (''Dimension Count (1536)'', PASS),
                        (''Type Safety (Float)'', PASS)];
               so_far = [Title_panel, Test1_heading, Compliance_table table,
                         Test2_heading, Test2_note]
           in case precision_audit v of
                Inl err \<Rightarrow> \<lparr>printed = so_far, raised = Some err\<rparr>
              | Inr row \<Rightarrow>
                  \<lparr>printed = so_far @ [Precision_table row, Verified_panel],
                   raised = None\<rparr>))"

definition run_compliance :: "rat list \<Rightarrow> run" where
  "run_compliance vector = run_compliance_on (mock_request vector) original_val"

section \<open>Packed buffers\<close>

text \<open>
  A numpy array of one or two dimensions: a vector, or a matrix of \<open>count\<close> rows of
  \<open>dimension\<close> elements each, kept row by row. The element type is a parameter; every
  array of these programs has \<open>dtype=np.float32\<close>, whose \<open>itemsize\<close> is 4.
\<close>

datatype 'b ndarray =
    Vec "'b list"
  | Mat nat nat "'b list list"

fun shape :: "'b ndarray \<Rightarrow> nat list" where
  "shape (Vec xs) = [length xs]"
| "shape (Mat n d rows) = [n, d]"

fun elements :: "'b ndarray \<Rightarrow> 'b list" where
  "elements (Vec xs) = xs"
| "elements (Mat n d rows) = concat rows"

definition itemsize :: nat where
  "itemsize = 4"

text \<open>\<open>a.nbytes\<close> is \<open>a.size * a.itemsize\<close>, and \<open>a.size\<close> the product of the shape.\<close>

definition nbytes :: "'b ndarray \<Rightarrow> nat" where
  "nbytes a = prod_list (shape a) * itemsize"

definition np_zeros :: "nat \<Rightarrow> nat \<Rightarrow> rat ndarray" where
  "np_zeros n d = Mat n d (replicate n (replicate d 0))"

text \<open>
  \<open>np.array(data, dtype=np.float32)\<close> of a list of lists of floats: every scalar is
  narrowed to the element type. An empty list gives an empty vector, rows of one length
  a matrix, rows of different lengths a \<open>ValueError\<close>.
\<close>

definition np_array :: "('a \<Rightarrow> 'b) \<Rightarrow> 'a list list \<Rightarrow> py_error + 'b ndarray" where
  "np_array narrow data =
     (case data of
        [] \<Rightarrow> Inr (Vec [])
      | row # rest \<Rightarrow>
          (if list_all (\<lambda>r. length r = length row) rest
           then Inr (Mat (length data) (length row) (map (map narrow) data))
           else Inl (ValueError Inhomogeneous_shape)))"

section \<open>\<open>run_memory_test\<close>\<close>

definition VECTORS :: nat where
  "VECTORS = 10000"

definition DIMS :: nat where
  "DIMS = 1536"

text \<open>
  What the host reports about its objects: \<open>__sizeof__()\<close> of a list built by a
  comprehension, as a function of its length; the header that \<open>sys.getsizeof\<close> adds for
  an object the garbage collector tracks; and the size of a float object. The program
  never asks for the last one.
\<close>

record host =
  sizeof_list :: "nat \<Rightarrow> nat"
  gc_header :: nat
  sizeof_float :: nat

definition list_sizeof :: "host \<Rightarrow> 'a list \<Rightarrow> nat" where
  "list_sizeof h xs = sizeof_list h (length xs)"

definition getsizeof :: "host \<Rightarrow> 'a list \<Rightarrow> nat" where
  "getsizeof h xs = list_sizeof h xs + gc_header h"

text \<open>
  Line 33: \<open>sys.getsizeof(py_data) + (VECTORS * sys.getsizeof(py_data[0])) +
  (VECTORS * DIMS * 24)\<close>.
\<close>

definition py_size_bytes :: "host \<Rightarrow> rat list list \<Rightarrow> py_error + nat" where
  "py_size_bytes h py_data =
     (case py_data of
        [] \<Rightarrow> Inl IndexError
      | row0 # _ \<Rightarrow>
          Inr (getsizeof h py_data + VECTORS * getsizeof h row0 + VECTORS * DIMS * 24))"

text \<open>
  Line 34, the integer that line 35 then divides: \<open>py_data.__sizeof__() +
  sum(sys.getsizeof(i) for i in py_data) + (VECTORS * DIMS * 24)\<close>.
\<close>

definition py_size_total :: "host \<Rightarrow> rat list list \<Rightarrow> nat" where
  "py_size_total h py_data =
     list_sizeof h py_data + sum_list (map (getsizeof h) py_data) + VECTORS * DIMS * 24"

definition mutatis_size_bytes :: nat where
  "mutatis_size_bytes = nbytes (np_zeros VECTORS DIMS)"

record memory_report =
  py_size_mb :: rat
  mutatis_size_mb :: rat
  waste_factor :: rat
  scaled_mutatis :: rat

text \<open>
  \<open>run_memory_test\<close> for the data the two comprehensions built: the sizes in MB, the
  ratio the table and the panel show, and the length of the second bar.
\<close>

definition run_memory_test :: "host \<Rightarrow> rat list list \<Rightarrow> py_error + memory_report" where
  "run_memory_test h py_data =
     (case py_size_bytes h py_data of
        Inl e \<Rightarrow> Inl e
      | Inr _ \<Rightarrow>
     (case int_truediv (int (py_size_total h py_data)) (1024 * 1024) of
        Inl e \<Rightarrow> Inl e
      | Inr py_mb \<Rightarrow>
     (case int_truediv (int mutatis_size_bytes) (1024 * 1024) of
        Inl e \<Rightarrow> Inl e
      | Inr mutatis_mb \<Rightarrow>
     (case float_truediv py_mb mutatis_mb of
        Inl e \<Rightarrow> Inl e
      | Inr waste \<Rightarrow>
     (case float_truediv mutatis_mb py_mb of
        Inl e \<Rightarrow> Inl e
      | Inr part \<Rightarrow>
          Inr \<lparr>py_size_mb = py_mb, mutatis_size_mb = mutatis_mb, waste_factor = waste,
                scaled_mutatis = float_mul part 100\<rparr>)))))"

text \<open>
  Two hosts and a data set to evaluate the estimate on: a host like 64-bit CPython, where
  a list takes 40 bytes and 8 more for each element, the collector's header 16 bytes and
  a float object 24 bytes; the same host with float objects of 32 bytes; and
  \<open>VECTORS\<close> rows of \<open>DIMS\<close> floats.
\<close>

definition example_host :: host where
  "example_host = \<lparr>sizeof_list = (\<lambda>n. 40 + 8 * n), gc_header = 16, sizeof_float = 24\<rparr>"

definition wide_float_host :: host where
  "wide_float_host = example_host\<lparr>sizeof_float := 32\<rparr>"

definition example_data :: "rat list list" where
  "example_data = replicate VECTORS (replicate DIMS (1 / 2))"

section \<open>\<open>run_throughput\<close>\<close>

text \<open>
  \<open>np.dot(a, q)\<close> of a matrix and a vector is the vector of the inner products of the
  rows with \<open>q\<close>; of two vectors, their inner product. It raises \<open>ValueError\<close> (shapes
  not aligned) when the last dimension of \<open>a\<close> differs from the length of \<open>q\<close>. The inner
  product of two single-precision vectors of one length is a parameter, \<open>inner\<close>: numpy
  leaves the order of its additions to the BLAS it was built with. The second argument
  of these programs is always a vector.
\<close>

datatype 'b dot_result = Scalar 'b | Array "'b ndarray"

fun np_dot :: "('b list \<Rightarrow> 'b list \<Rightarrow> 'b) \<Rightarrow> 'b ndarray \<Rightarrow> 'b list \<Rightarrow> py_error + 'b dot_result" where
  "np_dot inner (Mat n d rows) q =
     (if d = length q then Inr (Array (Vec (map (\<lambda>row. inner row q) rows)))
      else Inl (ValueError (Shapes_not_aligned [n, d] [length q])))"
| "np_dot inner (Vec xs) q =
     (if length xs = length q then Inr (Scalar (inner xs q))
      else Inl (ValueError (Shapes_not_aligned [length xs] [length q])))"

definition ITERATIONS :: nat where
  "ITERATIONS = 50"

text \<open>
  What one pass of a timed loop computes and throws away: the converted copy of the raw
  data, and the similarity scores.
\<close>

datatype 'b computed =
    Converted "'b ndarray"
  | Scores "'b dot_result"

text \<open>
  The loop of test 1 (lines 31 to 34): each pass converts \<open>raw_data\<close> again, then takes
  the dot product of \<open>fast_buffer\<close> and \<open>query\<close>. An exception ends the loop.
\<close>

fun standard_loop ::
  "('a \<Rightarrow> 'b) \<Rightarrow> ('b list \<Rightarrow> 'b list \<Rightarrow> 'b) \<Rightarrow> 'a list list \<Rightarrow> 'b ndarray \<Rightarrow> 'b list \<Rightarrow> nat
   \<Rightarrow> py_error + 'b computed list" where
  "standard_loop narrow inner raw_data fast_buffer query 0 = Inr []"
| "standard_loop narrow inner raw_data fast_buffer query (Suc n) =
     (case np_array narrow raw_data of
        Inl e \<Rightarrow> Inl e
      | Inr converted \<Rightarrow>
     (case np_dot inner fast_buffer query of
        Inl e \<Rightarrow> Inl e
      | Inr scores \<Rightarrow>
     (case standard_loop narrow inner raw_data fast_buffer query n of
        Inl e \<Rightarrow> Inl e
      | Inr later \<Rightarrow> Inr (Converted converted # Scores scores # later))))"

text \<open>The loop of test 2 (lines 39 to 41): the dot product alone.\<close>

fun mutatis_loop ::
  "('b list \<Rightarrow> 'b list \<Rightarrow> 'b) \<Rightarrow> 'b ndarray \<Rightarrow> 'b list \<Rightarrow> nat \<Rightarrow> py_error + 'b computed list" where
  "mutatis_loop inner fast_buffer query 0 = Inr []"
| "mutatis_loop inner fast_buffer query (Suc n) =
     (case np_dot inner fast_buffer query of
        Inl e \<Rightarrow> Inl e
      | Inr scores \<Rightarrow>
     (case mutatis_loop inner fast_buffer query n of
        Inl e \<Rightarrow> Inl e
      | Inr later \<Rightarrow> Inr (Scores scores # later)))"

record 'b throughput_run =
  standard :: "'b computed list"
  mutatis :: "'b computed list"

text \<open>
  \<open>run_throughput\<close> for the raw data and the random query the setup drew. The clock
  readings and the rates derived from them are not part of the model; the table is
  printed only when both loops have finished.
\<close>

definition run_throughput ::
  "('a \<Rightarrow> 'b) \<Rightarrow> ('b list \<Rightarrow> 'b list \<Rightarrow> 'b) \<Rightarrow> 'a list list \<Rightarrow> 'a list
   \<Rightarrow> py_error + 'b throughput_run" where
  "run_throughput narrow inner raw_data random_query =
     (case np_array narrow raw_data of
        Inl e \<Rightarrow> Inl e
      | Inr fast_buffer \<Rightarrow>
     (let query = map narrow random_query
      in case standard_loop narrow inner raw_data fast_buffer query ITERATIONS of
           Inl e \<Rightarrow> Inl e
         | Inr std \<Rightarrow>
        (case mutatis_loop inner fast_buffer query ITERATIONS of
           Inl e \<Rightarrow> Inl e
         | Inr mut \<Rightarrow> Inr \<lparr>standard = std, mutatis = mut\<rparr>)))"

text \<open>The similarity results among what a loop computed, in the order of the passes.\<close>

fun scores_of :: "'b computed list \<Rightarrow> 'b dot_result list" where
  "scores_of [] = []"
| "scores_of (Converted a # cs) = scores_of cs"
| "scores_of (Scores s # cs) = s # scores_of cs"

text \<open>
  One inner product, for the examples: the products added from left to right, each
  product and each sum rounded to single precision.
\<close>

definition inner_in_order :: "rat list \<Rightarrow> rat list \<Rightarrow> rat" where
  "inner_in_order xs ys =
     foldl (\<lambda>acc (x, y). to_single (acc + to_single (x * y))) 0 (zip xs ys)"

section \<open>Properties of the schema check\<close>

lemma items_errors_numbers:
  "\<forall>x \<in> set xs. is_type x T_number \<Longrightarrow> items_errors i xs (Schema [K_type T_number]) = []"
  by (induction xs arbitrary: i) (simp_all add: under_def)

text \<open>
  C6. The record \<open>{"id": "x", "vector": [0.0]*1536, "payload": {}}\<close> validates; the same
  record with a vector of 1535 zeros does not, and the error raised is the \<open>minItems\<close>
  error of the vector: it names the required length 1536, sits at the path \<open>vector\<close> and
  carries the offending 1535-element array.
\<close>

theorem schema_accepts_1536_rejects_1535:
  "validate (JObj [(''id'', JStr ''x''), (''vector'', JArr (replicate 1536 (JFloat 0))),
                   (''payload'', JObj [])]) VECTOR_SCHEMA = Inr ()
   \<and> validate (JObj [(''id'', JStr ''x''), (''vector'', JArr (replicate 1535 (JFloat 0))),
                     (''payload'', JObj [])]) VECTOR_SCHEMA
     = Inl \<lparr>failed = Too_short 1536, instance_of = JArr (replicate 1535 (JFloat 0)),
            path = [Key ''vector''], matches_type = True\<rparr>
   \<and> length (replicate 1535 (JFloat 0)) = 1535"
proof -
  have n: "\<forall>x \<in> set (replicate k (JFloat 0)). is_type x T_number" for k
    by simp
  have ok: "items_errors 0 (replicate k (JFloat 0)) (Schema [K_type T_number]) = []" for k
    by (rule items_errors_numbers [OF n])
  show ?thesis
    by (simp add: validate_def VECTOR_SCHEMA_def ok under_def)
qed

text \<open>
  C10. A record without \<open>payload\<close>, with a string \<open>id\<close> and a \<open>vector\<close> of 1536 numbers,
  validates: \<open>required\<close> lists only \<open>id\<close> and \<open>vector\<close>, and \<open>properties\<close> checks only the
  properties that are present.
\<close>

theorem payload_is_optional:
  assumes "length xs = 1536" and "\<forall>x \<in> set xs. is_type x T_number"
  shows "validate (JObj [(''id'', JStr s), (''vector'', JArr xs)]) VECTOR_SCHEMA = Inr ()"
proof -
  have "items_errors 0 xs (Schema [K_type T_number]) = []"
    by (rule items_errors_numbers [OF assms(2)])
  then show ?thesis
    using assms(1) by (simp add: validate_def VECTOR_SCHEMA_def under_def)
qed

theorem payload_is_optional_witness:
  "length (replicate 1536 (JFloat (1/2))) = 1536
   \<and> list_all (\<lambda>x. is_type x T_number) (replicate 1536 (JFloat (1/2)))
   \<and> validate (JObj [(''id'', JStr ''vec_8a7b9c''),
                     (''vector'', JArr (replicate 1536 (JFloat (1/2))))]) VECTOR_SCHEMA = Inr ()"
  using payload_is_optional [of "replicate 1536 (JFloat (1/2))" "''vec_8a7b9c''"]
  by (simp add: list_all_iff)
section \<open>Properties of the rounding\<close>

lemma round_half_even_floor: "\<lfloor>x\<rfloor> \<le> round_half_even x \<and> round_half_even x \<le> \<lfloor>x\<rfloor> + 1"
  by (simp add: round_half_even_def Let_def)

lemma round_half_even_error: "\<bar>of_int (round_half_even x) - x\<bar> \<le> 1/2"
proof -
  have "of_int \<lfloor>x\<rfloor> \<le> x" "x < of_int \<lfloor>x\<rfloor> + 1"
    by linarith+
  then show ?thesis
    unfolding round_half_even_def Let_def by (simp split: if_splits)
qed

lemma round_half_even_of_int: "round_half_even (of_int n) = n"
  by (simp add: round_half_even_def)

lemma round_half_even_mono: "x \<le> y \<Longrightarrow> round_half_even x \<le> round_half_even y"
proof -
  assume xy: "x \<le> y"
  then have f: "\<lfloor>x\<rfloor> \<le> \<lfloor>y\<rfloor>" by (rule floor_mono)
  show ?thesis
  proof (cases "\<lfloor>x\<rfloor> = \<lfloor>y\<rfloor>")
    case True
    then show ?thesis using xy
      unfolding round_half_even_def Let_def by (auto; linarith)
  next
    case False
    then have "\<lfloor>x\<rfloor> + 1 \<le> \<lfloor>y\<rfloor>" using f by linarith
    then show ?thesis using round_half_even_floor [of x] round_half_even_floor [of y] by linarith
  qed
qed

lemma binade_ge: "emin \<le> binade emin x"
proof -
  have "0 < bitlen \<lfloor>y\<rfloor>" if "1 \<le> y" for y :: rat
    using that by (simp add: bitlen_alt_def)
  then show ?thesis
    unfolding binade_def Let_def by (auto simp: not_less) 
qed

lemma pow2_split: "(2::rat) powi (a + b) = 2 powi a * 2 powi b"
  by (simp add: power_int_add)

lemma binade_upper: "\<bar>x\<bar> < 2 powi (binade emin x + 1)"
proof -
  define y where "y = \<bar>x\<bar> * 2 powi (- emin)"
  have x: "\<bar>x\<bar> = y * 2 powi emin"
    by (simp add: y_def power_int_minus)
  show ?thesis
  proof (cases "y < 1")
    case True
    then have e: "binade emin x = emin" by (simp add: binade_def y_def)
    have "y * 2 powi emin < 1 * 2 powi emin"
      using True by (intro mult_strict_right_mono) simp_all
    moreover have "(2::rat) powi emin \<le> 2 powi (emin + 1)"
      by (intro power_int_increasing) simp_all
    ultimately show ?thesis unfolding x e by linarith
  next
    case False
    then have b: "binade emin x = emin + bitlen \<lfloor>y\<rfloor> - 1" by (simp add: binade_def y_def Let_def)
    have "0 < \<lfloor>y\<rfloor>" using False by simp
    from bitlen_bounds [OF this] have "\<lfloor>y\<rfloor> < 2 ^ nat (bitlen \<lfloor>y\<rfloor>)" by simp
    then have "\<lfloor>y\<rfloor> + 1 \<le> 2 ^ nat (bitlen \<lfloor>y\<rfloor>)" by simp
    then have "(of_int (\<lfloor>y\<rfloor> + 1) :: rat) \<le> of_int (2 ^ nat (bitlen \<lfloor>y\<rfloor>))"
      by (rule of_int_le_iff [THEN iffD2])
    then have "y < 2 ^ nat (bitlen \<lfloor>y\<rfloor>)"
      by (simp add: floor_less_iff) linarith
    also have "\<dots> = 2 powi (bitlen \<lfloor>y\<rfloor>)"
      by (simp add: power_int_nonneg_exp bitlen_nonneg)
    finally have "y * 2 powi emin < 2 powi (bitlen \<lfloor>y\<rfloor>) * 2 powi emin"
      by (intro mult_strict_right_mono) simp_all
    then show ?thesis using x b by (simp add: pow2_split [symmetric] add.commute)
  qed
qed

lemma binade_lower: "binade emin x = emin \<or> 2 powi (binade emin x) \<le> \<bar>x\<bar>"
proof -
  define y where "y = \<bar>x\<bar> * 2 powi (- emin)"
  have x: "\<bar>x\<bar> = y * 2 powi emin"
    by (simp add: y_def power_int_minus)
  show ?thesis
  proof (cases "y < 1")
    case True
    then show ?thesis by (simp add: binade_def y_def)
  next
    case False
    then have b: "binade emin x = emin + bitlen \<lfloor>y\<rfloor> - 1" by (simp add: binade_def y_def Let_def)
    have pos: "0 < \<lfloor>y\<rfloor>" using False by simp
    then have b1: "1 \<le> bitlen \<lfloor>y\<rfloor>" by (simp add: bitlen_alt_def)
    from bitlen_bounds [OF pos] have le: "2 ^ nat (bitlen \<lfloor>y\<rfloor> - 1) \<le> \<lfloor>y\<rfloor>" by simp
    have "(2::rat) ^ nat (bitlen \<lfloor>y\<rfloor> - 1) = of_int (2 ^ nat (bitlen \<lfloor>y\<rfloor> - 1))"
      by simp
    also have "\<dots> \<le> of_int \<lfloor>y\<rfloor>"
      using le by (simp only: of_int_le_iff)
    also have "\<dots> \<le> y" by linarith
    finally have "(2::rat) ^ nat (bitlen \<lfloor>y\<rfloor> - 1) \<le> y" .
    moreover have "(2::rat) ^ nat (bitlen \<lfloor>y\<rfloor> - 1) = 2 powi (bitlen \<lfloor>y\<rfloor> - 1)"
      using b1 by (simp add: power_int_nonneg_exp)
    ultimately have "2 powi (bitlen \<lfloor>y\<rfloor> - 1) * 2 powi emin \<le> y * 2 powi emin"
      by (intro mult_right_mono) simp_all
    moreover have "binade emin x = (bitlen \<lfloor>y\<rfloor> - 1) + emin"
      using b by simp
    ultimately have "2 powi (binade emin x) \<le> \<bar>x\<bar>"
      unfolding x by (simp only: pow2_split)
    then show ?thesis ..
  qed
qed


lemma binade_le:
  assumes "\<bar>x\<bar> < 2 powi (e + 1)" and "emin \<le> e"
  shows "binade emin x \<le> e"
proof (rule ccontr)
  assume "\<not> binade emin x \<le> e"
  then have gt: "e + 1 \<le> binade emin x" by simp
  with assms(2) have "binade emin x \<noteq> emin" by simp
  with binade_lower [of emin x] have "2 powi (binade emin x) \<le> \<bar>x\<bar>" by simp
  moreover have "(2::rat) powi (e + 1) \<le> 2 powi (binade emin x)"
    using gt by (intro power_int_increasing) simp_all
  ultimately show False using assms(1) by linarith
qed

lemma binade_ge_pow:
  assumes "2 powi e \<le> \<bar>x\<bar>"
  shows "e \<le> binade emin x"
proof (rule ccontr)
  assume "\<not> e \<le> binade emin x"
  then have "binade emin x + 1 \<le> e" by simp
  then have "(2::rat) powi (binade emin x + 1) \<le> 2 powi e"
    by (intro power_int_increasing) simp_all
  with binade_upper [of x emin] assms show False by linarith
qed

lemma binade_mono: "\<bar>x\<bar> \<le> \<bar>y\<bar> \<Longrightarrow> binade emin x \<le> binade emin y"
  using binade_lower [of emin x] binade_ge [of emin y] binade_ge_pow [of "binade emin x" y emin]
  by force

lemma quantum_pos: "0 < quantum p emin x"
  by (simp add: quantum_def)

lemma round_to_error: "\<bar>round_to p emin x - x\<bar> \<le> quantum p emin x / 2"
proof -
  let ?q = "quantum p emin x"
  have q: "0 < ?q" by (rule quantum_pos)
  have "round_to p emin x - x = (of_int (round_half_even (x / ?q)) - x / ?q) * ?q"
    using q by (simp add: round_to_def left_diff_distrib)
  then have "\<bar>round_to p emin x - x\<bar> = \<bar>of_int (round_half_even (x / ?q)) - x / ?q\<bar> * ?q"
    using q by (simp add: abs_mult)
  also have "\<dots> \<le> (1/2) * ?q"
    using q round_half_even_error [of "x / ?q"] by (intro mult_right_mono) simp_all
  finally show ?thesis by simp
qed

text \<open>A multiple of the quantum is a bound the rounding respects.\<close>

lemma round_to_le:
  assumes "x \<le> of_int n * quantum p emin x"
  shows "round_to p emin x \<le> of_int n * quantum p emin x"
proof -
  let ?q = "quantum p emin x"
  have q: "0 < ?q" by (rule quantum_pos)
  from assms q have "x / ?q \<le> of_int n" by (simp add: pos_divide_le_eq)
  from round_half_even_mono [OF this] have "round_half_even (x / ?q) \<le> n" by (simp add: round_half_even_of_int)
  then have "(of_int (round_half_even (x / ?q)) :: rat) \<le> of_int n" by simp
  then show ?thesis
    unfolding round_to_def using q by (intro mult_right_mono) simp_all
qed

lemma round_to_ge:
  assumes "of_int n * quantum p emin x \<le> x"
  shows "of_int n * quantum p emin x \<le> round_to p emin x"
proof -
  let ?q = "quantum p emin x"
  have q: "0 < ?q" by (rule quantum_pos)
  from assms q have "of_int n \<le> x / ?q" by (simp add: pos_le_divide_eq)
  from round_half_even_mono [OF this] have "n \<le> round_half_even (x / ?q)" by (simp add: round_half_even_of_int)
  then have "(of_int n :: rat) \<le> of_int (round_half_even (x / ?q))" by simp
  then show ?thesis
    unfolding round_to_def using q by (intro mult_right_mono) simp_all
qed

text \<open>A power of two that is at least the quantum is a multiple of it.\<close>

lemma pow2_multiple:
  assumes "binade emin x - (int p - 1) \<le> k"
  shows "2 powi k = of_int (2 ^ nat (k - (binade emin x - (int p - 1)))) * quantum p emin x"
proof -
  let ?d = "k - (binade emin x - (int p - 1))"
  have "0 \<le> ?d" using assms by simp
  then have "(of_int (2 ^ nat ?d) :: rat) = 2 powi ?d"
    by (simp add: power_int_nonneg_exp)
  moreover have "k = ?d + (binade emin x - (int p - 1))" by simp
  then have "(2::rat) powi k = 2 powi ?d * 2 powi (binade emin x - (int p - 1))"
    by (metis pow2_split)
  ultimately show ?thesis by (simp add: quantum_def)
qed

lemma round_to_le_pow2:
  assumes "\<bar>x\<bar> \<le> 2 powi k" and "emin \<le> k" and "1 \<le> p"
  shows "round_to p emin x \<le> 2 powi k"
proof -
  have "\<bar>x\<bar> < 2 powi (k + 1)"
    using assms(1) power_int_strict_increasing [of k "k + 1" "2::rat"] by simp
  from binade_le [OF this assms(2)] have "binade emin x - (int p - 1) \<le> k"
    using assms(3) by simp
  from pow2_multiple [OF this] obtain n :: int where n: "2 powi k = of_int n * quantum p emin x"
    by blast
  have "x \<le> 2 powi k" using assms(1) by simp
  then show ?thesis
    unfolding n by (rule round_to_le)
qed

lemma round_to_ge_pow2:
  assumes "2 powi k \<le> x" and "emin \<le> k" and "1 \<le> p"
  shows "2 powi k \<le> round_to p emin x"
proof -
  let ?b = "binade emin x"
  have x: "2 powi k \<le> \<bar>x\<bar>" using assms(1) by simp
  from binade_ge_pow [OF this] have kb: "k \<le> ?b" .
  have "0 < (2::rat) powi k" by simp
  with assms(1) have pos: "0 < x" by linarith
  have b: "2 powi ?b \<le> x"
  proof (cases "?b = emin")
    case True
    with kb assms(2) have "k = ?b" by simp
    with assms(1) show ?thesis by simp
  next
    case False
    with binade_lower [of emin x] pos show ?thesis by simp
  qed
  have "?b - (int p - 1) \<le> ?b" using assms(3) by simp
  from pow2_multiple [OF this] obtain n :: int where n: "2 powi ?b = of_int n * quantum p emin x"
    by blast
  have "2 powi ?b \<le> round_to p emin x"
    using b unfolding n by (rule round_to_ge)
  moreover have "(2::rat) powi k \<le> 2 powi ?b"
    using kb by (intro power_int_increasing) simp_all
  ultimately show ?thesis by linarith
qed

text \<open>Rounding is monotone on the non-negative numbers.\<close>

lemma round_to_mono:
  assumes "0 \<le> x" and "x \<le> y" and "1 \<le> p"
  shows "round_to p emin x \<le> round_to p emin y"
proof (cases "binade emin x = binade emin y")
  case True
  then have q: "quantum p emin x = quantum p emin y" by (simp add: quantum_def)
  have "0 < quantum p emin y" by (rule quantum_pos)
  then have "x / quantum p emin y \<le> y / quantum p emin y"
    using assms(2) by (simp add: divide_right_mono)
  from round_half_even_mono [OF this] show ?thesis
    unfolding round_to_def q using quantum_pos [of p emin y]
    by (intro mult_right_mono) simp_all
next
  case False
  have "\<bar>x\<bar> \<le> \<bar>y\<bar>" using assms(1,2) by simp
  from binade_mono [OF this, of emin] False have lt: "binade emin x + 1 \<le> binade emin y"
    by simp
  have "\<bar>x\<bar> \<le> 2 powi (binade emin x + 1)"
    using binade_upper [of x emin] by simp
  moreover have "emin \<le> binade emin x + 1" using binade_ge [of emin x] by simp
  ultimately have up: "round_to p emin x \<le> 2 powi (binade emin x + 1)"
    using assms(3) by (rule round_to_le_pow2)
  have ne: "binade emin y \<noteq> emin" using lt binade_ge [of emin x] by simp
  have "0 \<le> y" using assms(1,2) by simp
  with binade_lower [of emin y] ne have "2 powi (binade emin y) \<le> y" by simp
  then have lo: "2 powi (binade emin y) \<le> round_to p emin y"
    using binade_ge [of emin y] assms(3) by (rule round_to_ge_pow2)
  have "(2::rat) powi (binade emin x + 1) \<le> 2 powi (binade emin y)"
    using lt by (intro power_int_increasing) simp_all
  with up lo show ?thesis by linarith
qed

text \<open>Evaluating the rounding of a number whose binade is known.\<close>

lemma binade_eqI:
  assumes "2 powi e \<le> \<bar>x\<bar>" and "\<bar>x\<bar> < 2 powi (e + 1)" and "emin \<le> e"
  shows "binade emin x = e"
  using binade_le [OF assms(2,3)] binade_ge_pow [OF assms(1), of emin] by simp

lemma round_to_eval:
  assumes "2 powi e \<le> \<bar>x\<bar>" and "\<bar>x\<bar> < 2 powi (e + 1)" and "emin \<le> e"
    and "round_half_even (x / 2 powi (e - (int p - 1))) = m"
  shows "round_to p emin x = of_int m * 2 powi (e - (int p - 1))"
  using assms(4) by (simp add: round_to_def quantum_def binade_eqI [OF assms(1,2,3)])

lemma round_to_exact:
  assumes "2 powi e \<le> \<bar>x\<bar>" and "\<bar>x\<bar> < 2 powi (e + 1)" and "emin \<le> e"
    and "x / 2 powi (e - (int p - 1)) = of_int m"
  shows "round_to p emin x = x"
proof -
  have "round_half_even (x / 2 powi (e - (int p - 1))) = m"
    by (simp add: assms(4) round_half_even_of_int)
  from round_to_eval [OF assms(1,2,3) this]
  have "round_to p emin x = x / 2 powi (e - (int p - 1)) * 2 powi (e - (int p - 1))"
    by (simp add: assms(4))
  then show ?thesis by simp
qed

lemma round_to_ge_neg_pow2:
  assumes "\<bar>x\<bar> \<le> 2 powi k" and "emin \<le> k" and "1 \<le> p"
  shows "- (2 powi k) \<le> round_to p emin x"
proof -
  have "\<bar>x\<bar> < 2 powi (k + 1)"
    using assms(1) power_int_strict_increasing [of k "k + 1" "2::rat"] by simp
  from binade_le [OF this assms(2)] have "binade emin x - (int p - 1) \<le> k"
    using assms(3) by simp
  from pow2_multiple [OF this] obtain n :: int where n: "2 powi k = of_int n * quantum p emin x"
    by blast
  have "of_int (- n) * quantum p emin x \<le> x"
    using assms(1) n by simp
  from round_to_ge [OF this] show ?thesis
    using n by simp
qed

lemma abs_round_to_le_pow2:
  assumes "\<bar>x\<bar> \<le> 2 powi k" and "emin \<le> k" and "1 \<le> p"
  shows "\<bar>round_to p emin x\<bar> \<le> 2 powi k"
  using round_to_le_pow2 [OF assms] round_to_ge_neg_pow2 [OF assms] by simp

section \<open>Properties of the precision audit\<close>

lemma original_val_eq: "original_val = 4447999595942063 / 2 ^ 55"
proof -
  have "round_half_even (123456789123456789 / 10 ^ 18 / 2 powi (- 4 - (int 53 - 1)))
        = 8895999191884126"
    by code_simp
  from round_to_eval [OF _ _ _ this, of "- 1022"] show ?thesis
    by (simp add: original_val_def to_double_def)
qed

lemma precision_threshold_eq: "precision_threshold = 944473296573929 / 2 ^ 73"
proof -
  have "round_half_even (1 / 10 ^ 7 / 2 powi (- 24 - (int 53 - 1))) = 7555786372591432"
    by code_simp
  from round_to_eval [OF _ _ _ this, of "- 1022"] show ?thesis
    by (simp add: precision_threshold_def to_double_def)
qed

lemma one_millionth_eq: "to_double (1 / 10 ^ 6) = 4722366482869645 / 2 ^ 72"
proof -
  have "round_half_even (1 / 10 ^ 6 / 2 powi (- 20 - (int 53 - 1))) = 4722366482869645"
    by code_simp
  from round_to_eval [OF _ _ _ this, of "- 1022"] show ?thesis
    by (simp add: to_double_def)
qed

lemma restored_val_eq: "to_single (4447999595942063 / 2 ^ 55) = 8285045 / 2 ^ 26"
proof -
  have "round_half_even (4447999595942063 / 2 ^ 55 / 2 powi (- 4 - (int 24 - 1))) = 16570090"
    by code_simp
  from round_to_eval [OF _ _ _ this, of "- 126"] show ?thesis
    by (simp add: to_single_def)
qed

lemma delta_eq:
  "to_double (4447999595942063 / 2 ^ 55 - 8285045 / 2 ^ 26) = - (69168977 / 2 ^ 55)"
proof -
  have "(4447999595942063 / 2 ^ 55 - 8285045 / 2 ^ 26 :: rat) / 2 powi (- 29 - (int 53 - 1))
        = of_int (- 4641851470512128)"
    by simp
  from round_to_exact [OF _ _ _ this, of "- 1022"] show ?thesis
    by (simp add: to_double_def)
qed

lemma decimal_eq: "to_double (12345679104328155 / 10 ^ 17) = 8285045 / 2 ^ 26"
proof -
  have "round_half_even (12345679104328155 / 10 ^ 17 / 2 powi (- 4 - (int 53 - 1)))
        = 8895999330222080"
    by code_simp
  from round_to_eval [OF _ _ _ this, of "- 1022"] show ?thesis
    by (simp add: to_double_def)
qed

text \<open>
  C8. For \<open>0.123456789123456789\<close> the audit stores \<open>8285045 / 2^26\<close>, the double that
  the decimal \<open>0.12345679104328155\<close> denotes; the delta is \<open>69168977 / 2^55\<close> (about
  \<open>1.92e-9\<close>), below the threshold \<open>1e-7\<close>, and the status is \<open>PASS\<close>.
\<close>

theorem precision_audit_original_val:
  "precision_audit original_val =
     Inr \<lparr>input_value = 4447999595942063 / 2 ^ 55, stored_value = 8285045 / 2 ^ 26,
          precision_delta = 69168977 / 2 ^ 55, precision_status = PASS\<rparr>
   \<and> to_double (12345679104328155 / 10 ^ 17) = 8285045 / 2 ^ 26
   \<and> 69168977 / 2 ^ 55 < precision_threshold
   \<and> precision_threshold = to_double (1 / 10 ^ 7)"
proof -
  have lt: "69168977 / 2 ^ 55 < precision_threshold"
    by (simp add: precision_threshold_eq)
  have pack: "struct_pack_f original_val = Inr (8285045 / 2 ^ 26)"
    unfolding struct_pack_f_def original_val_eq restored_val_eq Let_def by simp
  have delta:
    "\<bar>to_double (original_val - struct_unpack_f (8285045 / 2 ^ 26))\<bar> = 69168977 / 2 ^ 55"
    unfolding struct_unpack_f_def original_val_eq delta_eq by simp
  have audit: "precision_audit original_val =
     Inr \<lparr>input_value = 4447999595942063 / 2 ^ 55, stored_value = 8285045 / 2 ^ 26,
          precision_delta = 69168977 / 2 ^ 55, precision_status = PASS\<rparr>"
    unfolding precision_audit_def pack sum.case Let_def delta
    using lt by (simp add: struct_unpack_f_def original_val_eq)
  show ?thesis
    by (intro conjI) (rule audit, rule decimal_eq, rule lt, rule precision_threshold_def)
qed

lemma to_single_16777217: "to_single 16777217 = 16777216"
proof -
  have "round_half_even (16777217 / 2 powi (24 - (int 24 - 1))) = 8388608"
    by code_simp
  from round_to_eval [OF _ _ _ this, of "- 126"] show ?thesis
    by (simp add: to_single_def)
qed

lemma to_double_16777217: "to_double 16777217 = 16777217"
proof -
  have "(16777217 :: rat) / 2 powi (24 - (int 53 - 1)) = of_int 4503599895805952"
    by simp
  from round_to_exact [OF _ _ _ this, of "- 1022"] show ?thesis
    by (simp add: to_double_def)
qed

lemma to_double_1: "to_double 1 = 1"
proof -
  have "(1 :: rat) / 2 powi (0 - (int 53 - 1)) = of_int 4503599627370496"
    by simp
  from round_to_exact [OF _ _ _ this, of "- 1022"] show ?thesis
    by (simp add: to_double_def)
qed

lemma audit_16777217:
  "precision_audit 16777217 =
     Inr \<lparr>input_value = 16777217, stored_value = 16777216,
          precision_delta = 1, precision_status = FAIL\<rparr>"
proof -
  have pack: "struct_pack_f 16777217 = Inr 16777216"
    unfolding struct_pack_f_def to_single_16777217 Let_def by simp
  have delta: "\<bar>to_double (16777217 - struct_unpack_f 16777216)\<bar> = 1"
    unfolding struct_unpack_f_def by (simp add: to_double_1)
  show ?thesis
    unfolding precision_audit_def pack sum.case Let_def delta
    by (simp add: struct_unpack_f_def precision_threshold_eq)
qed

text \<open>
  The claim C3, that every finite value in single-precision range comes back with an
  error below \<open>1e-6\<close>, fails: \<open>16777217 = 2^24 + 1\<close> is a double, it lies well inside
  the single-precision range, and it is stored as \<open>16777216\<close>, an error of 1.
\<close>

theorem precision_audit_16777217:
  "to_double 16777217 = 16777217
   \<and> precision_audit 16777217 =
       Inr \<lparr>input_value = 16777217, stored_value = 16777216,
            precision_delta = 1, precision_status = FAIL\<rparr>
   \<and> \<not> (1 < to_double (1 / 10 ^ 6))"
proof -
  have "\<not> (1 < to_double (1 / 10 ^ 6))"
    unfolding one_millionth_eq by simp
  with audit_16777217 to_double_16777217 show ?thesis by blast
qed

lemma quantum_single_below_32:
  assumes "\<bar>v\<bar> < 32"
  shows "quantum 24 (- 126) v \<le> 2 powi (- 19)"
proof -
  have "\<bar>v\<bar> < 2 powi (4 + 1)" using assms by simp
  from binade_le [OF this, of "- 126"] have "binade (- 126) v \<le> 4" by simp
  then show ?thesis
    unfolding quantum_def by (intro power_int_increasing) simp_all
qed

lemma to_single_error_below_32:
  assumes "\<bar>v\<bar> < 32"
  shows "\<bar>v - to_single v\<bar> \<le> 2 powi (- 20)"
proof -
  have "\<bar>to_single v - v\<bar> \<le> quantum 24 (- 126) v / 2"
    unfolding to_single_def by (rule round_to_error)
  also have "\<dots> \<le> 2 powi (- 19) / 2"
    using quantum_single_below_32 [OF assms] by simp
  also have "\<dots> = 2 powi (- 20)"
    by (simp add: power_int_minus)
  finally show ?thesis by (simp add: abs_minus_commute)
qed

text \<open>
  C3, amended. For every value of magnitude below 32 the audit returns, and its delta is
  at most \<open>2^-20\<close>, which is below the double \<open>1e-6\<close>: such a value lies in a binade
  of at most 4, where single-precision numbers are \<open>2^-19\<close> apart at most.
\<close>

theorem precision_audit_below_32:
  assumes "\<bar>v\<bar> < 32"
  shows "\<exists>row. precision_audit v = Inr row
           \<and> stored_value row = to_single v
           \<and> precision_delta row \<le> 1 / 2 ^ 20
           \<and> precision_delta row < to_double (1 / 10 ^ 6)"
proof -
  have err: "\<bar>v - to_single v\<bar> \<le> 2 powi (- 20)"
    by (rule to_single_error_below_32 [OF assms])
  have "\<bar>to_single v\<bar> \<le> \<bar>v\<bar> + \<bar>v - to_single v\<bar>" by simp
  also have "\<dots> < 32 + 2 powi (- 20)" using assms err by simp
  also have "\<dots> < 2 ^ 128" by (simp add: power_int_minus)
  finally have pack: "struct_pack_f v = Inr (to_single v)"
    by (simp add: struct_pack_f_def Let_def)
  have "\<bar>to_double (v - to_single v)\<bar> \<le> 2 powi (- 20)"
    unfolding to_double_def using err by (rule abs_round_to_le_pow2) simp_all
  then have d: "\<bar>to_double (v - to_single v)\<bar> \<le> 1 / 2 ^ 20"
    by (simp add: power_int_minus)
  moreover have "(1 / 2 ^ 20 :: rat) < to_double (1 / 10 ^ 6)"
    unfolding one_millionth_eq by simp
  ultimately have "\<bar>to_double (v - to_single v)\<bar> < to_double (1 / 10 ^ 6)"
    by (rule le_less_trans)
  with d show ?thesis
    by (simp add: precision_audit_def pack struct_unpack_f_def Let_def)
qed

theorem precision_audit_below_32_witness:
  "\<bar>1 / 8 :: rat\<bar> < 32
   \<and> (\<exists>row. precision_audit (1 / 8) = Inr row
           \<and> stored_value row = to_single (1 / 8)
           \<and> precision_delta row \<le> 1 / 2 ^ 20
           \<and> precision_delta row < to_double (1 / 10 ^ 6))"
  using precision_audit_below_32 [of "1 / 8"] by simp

section \<open>Properties of \<open>run_compliance\<close>\<close>

lemma validate_mock_request:
  "validate (mock_request vector) VECTOR_SCHEMA =
     (if length vector < 1536
      then Inl \<lparr>failed = Too_short 1536, instance_of = JArr (map JFloat vector),
                path = [Key ''vector''], matches_type = True\<rparr>
      else if 1536 < length vector
      then Inl \<lparr>failed = Too_long 1536, instance_of = JArr (map JFloat vector),
                path = [Key ''vector''], matches_type = True\<rparr>
      else Inr ())"
proof -
  have "\<forall>x \<in> set (map JFloat vector). is_type x T_number" by simp
  then have "items_errors 0 (map JFloat vector) (Schema [K_type T_number]) = []"
    by (rule items_errors_numbers)
  then show ?thesis
    by (simp add: validate_def VECTOR_SCHEMA_def mock_request_def under_def)
qed

text \<open>
  The claim C1, that a failed validation check leaves the remaining checks to execute and
  report, fails for the schema check: with a vector of 1535 elements the run prints the
  schema failure and returns. Neither the compliance table nor the precision table is
  printed, and the precision audit is never reached.
\<close>

theorem run_compliance_schema_failure_returns:
  "run_compliance (replicate 1535 0) =
     \<lparr>printed = [Title_panel, Test1_heading,
                 Schema_failure \<lparr>failed = Too_short 1536,
                                 instance_of = JArr (replicate 1535 (JFloat 0)),
                                 path = [Key ''vector''], matches_type = True\<rparr>],
      raised = None\<rparr>"
  by (simp add: run_compliance_def run_compliance_on_def validate_mock_request)

text \<open>
  C1, amended. A schema failure is caught, not raised: the run prints it and returns
  normally, before the precision audit. When the schema check passes and the audit
  returns a row, the run prints the three passing rows, the precision row with the
  status the audit computed (\<open>FAIL\<close> when the delta is not below the threshold) and the
  final panel: a failed precision check does not end the run.
\<close>

theorem run_compliance_on_outcomes:
  "(validate request VECTOR_SCHEMA = Inl e \<longrightarrow>
      run_compliance_on request v =
        \<lparr>printed = [Title_panel, Test1_heading, Schema_failure e], raised = None\<rparr>)
   \<and> (validate request VECTOR_SCHEMA = Inr () \<and> precision_audit v = Inr row \<longrightarrow>
      run_compliance_on request v =
        \<lparr>printed = [Title_panel, Test1_heading,
                    Compliance_table [(''JSON Structure'', PASS),
                                      (''Dimension Count (1536)'', PASS),
                                      (''Type Safety (Float)'', PASS)],
                    Test2_heading, Test2_note, Precision_table row, Verified_panel],
         raised = None\<rparr>
      \<and> precision_status row =
          (if precision_delta row < precision_threshold then PASS else FAIL))"
  by (auto simp: run_compliance_on_def precision_audit_def Let_def split: sum.splits)

theorem run_compliance_on_outcomes_witness:
  "validate (mock_request (replicate 1535 0)) VECTOR_SCHEMA =
     Inl \<lparr>failed = Too_short 1536, instance_of = JArr (replicate 1535 (JFloat 0)),
          path = [Key ''vector''], matches_type = True\<rparr>
   \<and> run_compliance_on (mock_request (replicate 1535 0)) 16777217 =
       \<lparr>printed = [Title_panel, Test1_heading,
                   Schema_failure \<lparr>failed = Too_short 1536,
                                   instance_of = JArr (replicate 1535 (JFloat 0)),
                                   path = [Key ''vector''], matches_type = True\<rparr>],
        raised = None\<rparr>
   \<and> validate (mock_request (replicate 1536 0)) VECTOR_SCHEMA = Inr ()
   \<and> precision_audit 16777217 =
       Inr \<lparr>input_value = 16777217, stored_value = 16777216,
            precision_delta = 1, precision_status = FAIL\<rparr>
   \<and> run_compliance_on (mock_request (replicate 1536 0)) 16777217 =
       \<lparr>printed = [Title_panel, Test1_heading,
                   Compliance_table [(''JSON Structure'', PASS),
                                     (''Dimension Count (1536)'', PASS),
                                     (''Type Safety (Float)'', PASS)],
                   Test2_heading, Test2_note,
                   Precision_table \<lparr>input_value = 16777217, stored_value = 16777216,
                                    precision_delta = 1, precision_status = FAIL\<rparr>,
                   Verified_panel],
        raised = None\<rparr>"
proof -
  let ?e = "\<lparr>failed = Too_short 1536, instance_of = JArr (replicate 1535 (JFloat 0)),
            path = [Key ''vector''], matches_type = True\<rparr>"
  let ?row = "\<lparr>input_value = 16777217, stored_value = 16777216,
              precision_delta = 1, precision_status = FAIL\<rparr>"
  have bad: "validate (mock_request (replicate 1535 0)) VECTOR_SCHEMA = Inl ?e"
    by (simp add: validate_mock_request)
  have good: "validate (mock_request (replicate 1536 0)) VECTOR_SCHEMA = Inr ()"
    by (simp add: validate_mock_request)
  have audit: "precision_audit 16777217 = Inr ?row"
    by (rule audit_16777217)
  from run_compliance_on_outcomes [of "mock_request (replicate 1535 0)" ?e 16777217 ?row]
    run_compliance_on_outcomes [of "mock_request (replicate 1536 0)" ?e 16777217 ?row]
    bad good audit
  show ?thesis by simp
qed

section \<open>Properties of the memory estimate\<close>

lemma length_elements_np_zeros: "length (elements (np_zeros n d)) = n * d"
  by (simp add: np_zeros_def length_concat sum_list_replicate)

lemma nbytes_np_zeros: "nbytes (np_zeros n d) = n * d * 4"
  by (simp add: nbytes_def np_zeros_def itemsize_def)

lemma mutatis_size_bytes_eq: "mutatis_size_bytes = 61440000"
  by (simp add: mutatis_size_bytes_def nbytes_np_zeros VECTORS_def DIMS_def)

text \<open>
  C4. The packed buffer of \<open>count\<close> rows and \<open>dimension\<close> columns takes exactly
  \<open>count * dimension * itemsize\<close> bytes, with \<open>itemsize = 4\<close>: four bytes for each of the
  \<open>count * dimension\<close> elements it holds and nothing else. For the buffer of
  \<open>run_memory_test\<close> that is \<open>VECTORS * DIMS * 4\<close>.
\<close>

theorem packed_size_exact:
  "nbytes (np_zeros count dimension) = count * dimension * itemsize
   \<and> itemsize = 4
   \<and> nbytes (np_zeros count dimension) = length (elements (np_zeros count dimension)) * 4
   \<and> mutatis_size_bytes = VECTORS * DIMS * 4"
  by (simp add: nbytes_np_zeros length_elements_np_zeros itemsize_def mutatis_size_bytes_def)

lemma py_size_total_example: "py_size_total h example_data =
    sizeof_list h 10000 + 10000 * (sizeof_list h 1536 + gc_header h) + 368640000"
  by (simp add: py_size_total_def example_data_def VECTORS_def DIMS_def list_sizeof_def
      getsizeof_def sum_list_replicate)

text \<open>
  The claim C2, that the per-scalar overhead is read off the host's float objects, fails:
  on a host whose float objects take 32 bytes the estimate still charges 24 bytes for each
  scalar, 492160040 bytes in all, where the sizes of the containers and of the
  15360000 float objects add up to 615040040.
\<close>

theorem py_size_total_wide_float_host:
  "sizeof_float wide_float_host = 32
   \<and> py_size_total wide_float_host example_data = 492160040
   \<and> list_sizeof wide_float_host example_data
       + sum_list (map (getsizeof wide_float_host) example_data)
       + length (concat example_data) * sizeof_float wide_float_host = 615040040"
proof -
  have "length (concat example_data) = 15360000"
    by (simp add: example_data_def VECTORS_def DIMS_def length_concat sum_list_replicate)
  moreover have "list_sizeof wide_float_host example_data
       + sum_list (map (getsizeof wide_float_host) example_data) = 123520040"
    by (simp add: example_data_def VECTORS_def DIMS_def list_sizeof_def getsizeof_def
        sum_list_replicate wide_float_host_def example_host_def)
  moreover have "py_size_total wide_float_host example_data = 492160040"
    by (simp add: py_size_total_example wide_float_host_def example_host_def)
  ultimately show ?thesis
    by (simp add: wide_float_host_def)
qed

text \<open>
  C2, amended. The estimate is the size of the outer list, plus the sizes of the rows,
  both as the host reports them, plus the constant 24 bytes for each of the
  \<open>VECTORS * DIMS\<close> scalars: it does not depend on the size of the host's float
  objects. The same holds for the unused estimate of line 33, which takes the first row's
  size for every row.
\<close>

theorem py_size_total_decomposition:
  "py_size_total h py_data =
     list_sizeof h py_data + sum_list (map (getsizeof h) py_data) + VECTORS * DIMS * 24
   \<and> py_size_total (h\<lparr>sizeof_float := s\<rparr>) py_data = py_size_total h py_data
   \<and> py_size_bytes h (row0 # rest) =
       Inr (getsizeof h (row0 # rest) + VECTORS * getsizeof h row0 + VECTORS * DIMS * 24)
   \<and> py_size_bytes (h\<lparr>sizeof_float := s\<rparr>) (row0 # rest) = py_size_bytes h (row0 # rest)"
proof -
  have "getsizeof (h\<lparr>sizeof_float := s\<rparr>) = (getsizeof h :: rat list \<Rightarrow> nat)"
    by (rule ext) (simp add: getsizeof_def list_sizeof_def)
  then show ?thesis
    by (simp add: py_size_total_def py_size_bytes_def getsizeof_def list_sizeof_def)
qed

lemma np_array_shape:
  assumes "length data = n" and "0 < n" and "\<forall>row \<in> set data. length row = d"
  shows "np_array narrow data = Inr (Mat n d (map (map narrow) data))"
proof (cases data)
  case Nil
  with assms(1,2) show ?thesis by simp
next
  case (Cons row rest)
  with assms(3) have "length row = d" and "\<forall>r \<in> set rest. length r = d" by simp_all
  with Cons assms(1) show ?thesis
    by (simp add: np_array_def list_all_iff)
qed

lemma to_double_mutatis_mb: "to_double (1875 / 32) = 1875 / 32"
proof -
  have "(1875 / 32 :: rat) / 2 powi (5 - (int 53 - 1)) = of_int 8246337208320000"
    by simp
  from round_to_exact [OF _ _ _ this, of "- 1022"] show ?thesis
    by (simp add: to_double_def)
qed

lemma mutatis_size_mb_eq:
  "int_truediv (int mutatis_size_bytes) (1024 * 1024) = Inr (1875 / 32)"
proof -
  have "(of_int (int mutatis_size_bytes) / of_int (1024 * 1024) :: rat) = 1875 / 32"
    by (simp add: mutatis_size_bytes_eq)
  then have r: "to_double (of_int (int mutatis_size_bytes) / of_int (1024 * 1024)) = 1875 / 32"
    by (simp only: to_double_mutatis_mb)
  have "\<not> (2 :: rat) ^ 1024 \<le> \<bar>1875 / 32\<bar>" by simp
  then show ?thesis
    unfolding int_truediv_def Let_def r by simp
qed

lemma py_size_total_ge: "mutatis_size_bytes \<le> py_size_total h py_data"
  by (simp add: py_size_total_def mutatis_size_bytes_eq VECTORS_def DIMS_def)

lemma py_size_mb_ge:
  "1875 / 32 \<le> to_double (of_int (int (py_size_total h py_data)) / of_int (1024 * 1024))"
proof -
  have "(61440000 :: rat) \<le> of_nat (py_size_total h py_data)"
    using py_size_total_ge [of h py_data] unfolding mutatis_size_bytes_eq
    by (metis of_nat_le_iff of_nat_numeral)
  then have "(1875 / 32 :: rat) \<le> of_int (int (py_size_total h py_data)) / of_int (1024 * 1024)"
    by simp
  then have "to_double (1875 / 32)
      \<le> to_double (of_int (int (py_size_total h py_data)) / of_int (1024 * 1024))"
    unfolding to_double_def by (intro round_to_mono) simp_all
  then show ?thesis by (simp only: to_double_mutatis_mb)
qed

lemma waste_factor_ge:
  assumes "1875 / 32 \<le> py_mb"
  shows "1 \<le> to_double (py_mb / (1875 / 32))"
proof -
  have "1 \<le> py_mb / (1875 / 32)" using assms by simp
  then have "to_double 1 \<le> to_double (py_mb / (1875 / 32))"
    unfolding to_double_def by (intro round_to_mono) simp_all
  then show ?thesis by (simp only: to_double_1)
qed

lemma run_memory_test_cases:
  assumes "py_data \<noteq> []"
  shows "run_memory_test h py_data =
     (let py_mb = to_double (of_int (int (py_size_total h py_data)) / of_int (1024 * 1024))
      in if 2 ^ 1024 \<le> \<bar>py_mb\<bar> then Inl OverflowError
         else Inr \<lparr>py_size_mb = py_mb, mutatis_size_mb = 1875 / 32,
                   waste_factor = to_double (py_mb / (1875 / 32)),
                   scaled_mutatis = float_mul (to_double (1875 / 32 / py_mb)) 100\<rparr>)"
proof -
  obtain row0 rest where d: "py_data = row0 # rest"
    using assms by (cases py_data) simp_all
  have ne: "to_double (of_int (int (py_size_total h py_data)) / of_int (1024 * 1024)) \<noteq> 0"
    using py_size_mb_ge [of h py_data] by auto
  have bytes: "py_size_bytes h py_data
      = Inr (getsizeof h py_data + VECTORS * getsizeof h row0 + VECTORS * DIMS * 24)"
    by (simp add: py_size_bytes_def d)
  show ?thesis
    unfolding run_memory_test_def bytes sum.case mutatis_size_mb_eq
    using ne by (simp add: int_truediv_def float_truediv_def Let_def)
qed

text \<open>
  C5. For data of \<open>VECTORS\<close> rows of \<open>DIMS\<close> floats, the estimate of the loose
  representation is at least the size of the packed buffer the data converts to, which is
  the size \<open>run_memory_test\<close> reports for the packed side; so is the estimate of line 33.
  The ratio the run reports is at least 1 whenever the run returns, and the run returns
  unless the estimate is too large to divide into a double.
\<close>

theorem loose_at_least_packed:
  assumes "length py_data = VECTORS" and "\<forall>row \<in> set py_data. length row = DIMS"
  shows "(\<exists>b. np_array to_single py_data = Inr b
              \<and> nbytes b = mutatis_size_bytes
              \<and> nbytes b \<le> py_size_total h py_data
              \<and> (\<exists>n. py_size_bytes h py_data = Inr n \<and> nbytes b \<le> n))
         \<and> (\<forall>r. run_memory_test h py_data = Inr r \<longrightarrow> 1 \<le> waste_factor r)
         \<and> (py_size_total h py_data < 2 ^ 1000 \<longrightarrow>
              (\<exists>r. run_memory_test h py_data = Inr r \<and> 1 \<le> waste_factor r))"
proof -
  let ?py_mb = "to_double (of_int (int (py_size_total h py_data)) / of_int (1024 * 1024))"
  have pos: "0 < VECTORS" by (simp add: VECTORS_def)
  from np_array_shape [OF assms(1) pos assms(2)]
  have arr: "np_array to_single py_data = Inr (Mat VECTORS DIMS (map (map to_single) py_data))" .
  have nb: "nbytes (Mat VECTORS DIMS (map (map to_single) py_data)) = mutatis_size_bytes"
    by (simp add: nbytes_def mutatis_size_bytes_def np_zeros_def)
  have ne: "py_data \<noteq> []" using assms(1) pos by auto
  then obtain row0 rest where d: "py_data = row0 # rest" by (cases py_data) simp_all
  have bytes: "\<exists>n. py_size_bytes h py_data = Inr n \<and> mutatis_size_bytes \<le> n"
    by (simp add: py_size_bytes_def d mutatis_size_bytes_eq VECTORS_def DIMS_def)
  have first: "\<exists>b. np_array to_single py_data = Inr b
              \<and> nbytes b = mutatis_size_bytes
              \<and> nbytes b \<le> py_size_total h py_data
              \<and> (\<exists>n. py_size_bytes h py_data = Inr n \<and> nbytes b \<le> n)"
    using arr nb py_size_total_ge [of h py_data] bytes by simp
  have w: "1 \<le> to_double (?py_mb / (1875 / 32))"
    by (rule waste_factor_ge [OF py_size_mb_ge])
  have second: "\<forall>r. run_memory_test h py_data = Inr r \<longrightarrow> 1 \<le> waste_factor r"
    using w by (auto simp: run_memory_test_cases [OF ne] Let_def split: if_splits)
  have third: "\<exists>r. run_memory_test h py_data = Inr r \<and> 1 \<le> waste_factor r"
    if small: "py_size_total h py_data < 2 ^ 1000"
  proof -
    have "(of_nat (py_size_total h py_data) :: rat) < of_nat (2 ^ 1000)"
      using small by (simp only: of_nat_less_iff)
    then have "(of_int (int (py_size_total h py_data)) :: rat) / of_int (1024 * 1024) \<le> 2 ^ 1000"
      by (simp add: field_simps)
    then have "\<bar>(of_int (int (py_size_total h py_data)) :: rat) / of_int (1024 * 1024)\<bar>
        \<le> 2 powi 1000"
      by simp
    then have "\<bar>?py_mb\<bar> \<le> 2 powi 1000"
      unfolding to_double_def by (rule abs_round_to_le_pow2) simp_all
    moreover have "(2::rat) powi 1000 < 2 ^ 1024" by simp
    ultimately have "\<not> 2 ^ 1024 \<le> \<bar>?py_mb\<bar>" by linarith
    then show ?thesis
      using w by (simp add: run_memory_test_cases [OF ne] Let_def)
  qed
  from first second third show ?thesis by blast
qed

lemma example_data_shape:
  "length example_data = VECTORS" "list_all (\<lambda>row. length row = DIMS) example_data"
  by (simp_all add: example_data_def list_all_iff)

theorem loose_at_least_packed_witness:
  "length example_data = VECTORS
   \<and> list_all (\<lambda>row. length row = DIMS) example_data
   \<and> py_size_total example_host example_data = 492160040
   \<and> (\<exists>b. np_array to_single example_data = Inr b
          \<and> nbytes b = mutatis_size_bytes
          \<and> nbytes b \<le> py_size_total example_host example_data)
   \<and> (\<exists>r. run_memory_test example_host example_data = Inr r \<and> 1 \<le> waste_factor r)"
proof -
  have total: "py_size_total example_host example_data = 492160040"
    by (simp add: py_size_total_example example_host_def)
  have "(492160040 :: nat) < 2 ^ 1000" by simp
  then have small: "py_size_total example_host example_data < 2 ^ 1000"
    by (simp only: total)
  have all: "\<forall>row \<in> set example_data. length row = DIMS"
    using example_data_shape(2) by (simp add: list_all_iff)
  from loose_at_least_packed [OF example_data_shape(1) all, of example_host] small total
    example_data_shape
  show ?thesis by blast
qed

section \<open>Properties of \<open>run_throughput\<close>\<close>

lemma np_dot_mismatch:
  assumes "last (shape fast_buffer) \<noteq> length query"
  shows "np_dot inner fast_buffer query
    = Inl (ValueError (Shapes_not_aligned (shape fast_buffer) [length query]))"
  using assms by (cases fast_buffer) simp_all

lemma np_dot_aligned:
  assumes "last (shape fast_buffer) = length query"
  shows "\<exists>scores. np_dot inner fast_buffer query = Inr scores"
  using assms by (cases fast_buffer) simp_all

lemma standard_loop_ok:
  assumes "np_array narrow raw_data = Inr converted"
    and "np_dot inner fast_buffer query = Inr scores"
  shows "standard_loop narrow inner raw_data fast_buffer query n
    = Inr (concat (replicate n [Converted converted, Scores scores]))"
  by (induction n) (simp_all add: assms)

lemma mutatis_loop_ok:
  assumes "np_dot inner fast_buffer query = Inr scores"
  shows "mutatis_loop inner fast_buffer query n = Inr (replicate n (Scores scores))"
  by (induction n) (simp_all add: assms)

lemma standard_loop_fails:
  assumes "np_dot inner fast_buffer query = Inl e"
  shows "\<exists>e'. standard_loop narrow inner raw_data fast_buffer query (Suc n) = Inl e'"
  by (cases "np_array narrow raw_data") (simp_all add: assms)

lemma standard_loop_dot_fails:
  assumes "np_array narrow raw_data = Inr converted"
    and "np_dot inner fast_buffer query = Inl e"
  shows "standard_loop narrow inner raw_data fast_buffer query (Suc n) = Inl e"
  by (simp add: assms)

lemma mutatis_loop_fails:
  assumes "np_dot inner fast_buffer query = Inl e"
  shows "mutatis_loop inner fast_buffer query (Suc n) = Inl e"
  by (simp add: assms)

lemma ITERATIONS_Suc: "ITERATIONS = Suc 49"
  by (simp add: ITERATIONS_def)

lemma run_throughput_cases:
  assumes "np_array narrow raw_data = Inr fast_buffer"
  shows "run_throughput narrow inner raw_data random_query =
    (case np_dot inner fast_buffer (map narrow random_query) of
       Inl e \<Rightarrow> Inl e
     | Inr scores \<Rightarrow>
         Inr \<lparr>standard = concat (replicate ITERATIONS [Converted fast_buffer, Scores scores]),
              mutatis = replicate ITERATIONS (Scores scores)\<rparr>)"
proof (cases "np_dot inner fast_buffer (map narrow random_query)")
  case (Inl e)
  from standard_loop_dot_fails [OF assms Inl, of 49] show ?thesis
    unfolding run_throughput_def Let_def ITERATIONS_Suc by (simp add: assms Inl)
next
  case (Inr scores)
  show ?thesis
    unfolding run_throughput_def Let_def
    by (simp add: assms Inr standard_loop_ok [OF assms Inr] mutatis_loop_ok [OF Inr])
qed

lemma scores_of_standard:
  "scores_of (concat (replicate n [Converted c, Scores s])) = replicate n s"
  by (induction n) simp_all

lemma scores_of_mutatis: "scores_of (replicate n (Scores s)) = replicate n s"
  by (induction n) simp_all

text \<open>
  C7. When the last dimension of the packed buffer differs from the length of the query,
  \<open>np.dot\<close> raises: numpy's \<open>ValueError\<close>, shapes not aligned, which names the two shapes.
  Nothing in \<open>run_throughput\<close> catches it, so each timed loop ends in an exception at its
  first pass, and the run ends in that exception without a result: no rate is computed
  and no table is printed.
\<close>

theorem dot_dimension_mismatch:
  assumes "last (shape fast_buffer) \<noteq> length query"
  shows "np_dot inner fast_buffer query
           = Inl (ValueError (Shapes_not_aligned (shape fast_buffer) [length query]))
         \<and> mutatis_loop inner fast_buffer query (Suc n)
           = Inl (ValueError (Shapes_not_aligned (shape fast_buffer) [length query]))
         \<and> (\<exists>e. standard_loop narrow inner raw_data fast_buffer query (Suc n) = Inl e)
         \<and> (np_array narrow raw_data = Inr fast_buffer \<and> length random_query = length query
              \<longrightarrow> run_throughput narrow inner raw_data random_query
                = Inl (ValueError (Shapes_not_aligned (shape fast_buffer) [length query])))"
proof -
  note dot = np_dot_mismatch [OF assms, of inner]
  have run: "run_throughput narrow inner raw_data random_query
      = Inl (ValueError (Shapes_not_aligned (shape fast_buffer) [length query]))"
    if arr: "np_array narrow raw_data = Inr fast_buffer"
      and len: "length random_query = length query"
  proof -
    have "last (shape fast_buffer) \<noteq> length (map narrow random_query)"
      using assms len by simp
    from np_dot_mismatch [OF this, of inner] show ?thesis
      by (simp add: run_throughput_cases [OF arr] len)
  qed
  from dot mutatis_loop_fails [OF dot] standard_loop_fails [OF dot] run
  show ?thesis by blast
qed

theorem dot_dimension_mismatch_witness:
  "np_array to_single (replicate 3 (replicate 128 (1 / 2)))
     = Inr (Mat 3 128 (map (map to_single) (replicate 3 (replicate 128 (1 / 2)))))
   \<and> np_dot inner_in_order
       (Mat 3 128 (map (map to_single) (replicate 3 (replicate 128 (1 / 2)))))
       (replicate 64 (1 / 4))
     = Inl (ValueError (Shapes_not_aligned [3, 128] [64]))
   \<and> run_throughput to_single inner_in_order
       (replicate 3 (replicate 128 (1 / 2))) (replicate 64 (1 / 4))
     = Inl (ValueError (Shapes_not_aligned [3, 128] [64]))"
proof -
  let ?raw = "replicate 3 (replicate 128 (1 / 2 :: rat))"
  let ?buffer = "Mat 3 128 (map (map to_single) ?raw)"
  have arr: "np_array to_single ?raw = Inr ?buffer"
    by (rule np_array_shape) simp_all
  have differ: "last (shape ?buffer) \<noteq> length (replicate 64 (1 / 4 :: rat))"
    by simp
  from dot_dimension_mismatch [OF differ, of inner_in_order 0 to_single ?raw
      "replicate 64 (1 / 4)"] arr
  show ?thesis by simp
qed

text \<open>
  C9. A run that returns converted the raw data to one buffer and took one dot product
  of that buffer and the query; what its standard loop computed is, \<open>ITERATIONS\<close> times
  over, a conversion of the raw data followed by these same scores, and what its
  optimised loop computed is these scores \<open>ITERATIONS\<close> times over. So the two loops
  computed the same similarity results, pass for pass, and the standard loop differs by
  its conversions alone. The run returns whenever the raw data converts and the last
  dimension of the buffer is the length of the query. (The dot product is a function of
  its arguments here: \<open>inner\<close> is the same in both loops.)
\<close>

theorem both_paths_same_scores:
  "(\<forall>r. run_throughput narrow inner raw_data random_query = Inr r \<longrightarrow>
      (\<exists>fast_buffer scores.
         np_array narrow raw_data = Inr fast_buffer
         \<and> np_dot inner fast_buffer (map narrow random_query) = Inr scores
         \<and> standard r = concat (replicate ITERATIONS [Converted fast_buffer, Scores scores])
         \<and> mutatis r = replicate ITERATIONS (Scores scores)
         \<and> scores_of (standard r) = scores_of (mutatis r)
         \<and> scores_of (mutatis r) = replicate ITERATIONS scores))
   \<and> (\<forall>fast_buffer. np_array narrow raw_data = Inr fast_buffer
          \<and> last (shape fast_buffer) = length random_query \<longrightarrow>
        (\<exists>r. run_throughput narrow inner raw_data random_query = Inr r))"
proof (intro conjI allI impI)
  fix r
  assume run: "run_throughput narrow inner raw_data random_query = Inr r"
  then obtain fast_buffer where arr: "np_array narrow raw_data = Inr fast_buffer"
    by (cases "np_array narrow raw_data") (simp_all add: run_throughput_def)
  from run obtain scores
    where dot: "np_dot inner fast_buffer (map narrow random_query) = Inr scores"
    by (cases "np_dot inner fast_buffer (map narrow random_query)")
      (simp_all add: run_throughput_cases [OF arr])
  from run have r: "r = \<lparr>standard = concat (replicate ITERATIONS [Converted fast_buffer, Scores scores]),
      mutatis = replicate ITERATIONS (Scores scores)\<rparr>"
    by (simp add: run_throughput_cases [OF arr] dot)
  have "standard r = concat (replicate ITERATIONS [Converted fast_buffer, Scores scores])"
    and "mutatis r = replicate ITERATIONS (Scores scores)"
    by (simp_all add: r)
  moreover from this have "scores_of (standard r) = scores_of (mutatis r)"
    and "scores_of (mutatis r) = replicate ITERATIONS scores"
    by (simp_all only: scores_of_standard scores_of_mutatis)
  ultimately show "\<exists>fast_buffer scores.
         np_array narrow raw_data = Inr fast_buffer
         \<and> np_dot inner fast_buffer (map narrow random_query) = Inr scores
         \<and> standard r = concat (replicate ITERATIONS [Converted fast_buffer, Scores scores])
         \<and> mutatis r = replicate ITERATIONS (Scores scores)
         \<and> scores_of (standard r) = scores_of (mutatis r)
         \<and> scores_of (mutatis r) = replicate ITERATIONS scores"
    using arr dot by blast
next
  fix fast_buffer
  assume "np_array narrow raw_data = Inr fast_buffer
    \<and> last (shape fast_buffer) = length random_query"
  then have arr: "np_array narrow raw_data = Inr fast_buffer"
    and "last (shape fast_buffer) = length (map narrow random_query)"
    by simp_all
  from np_dot_aligned [OF this(2), of inner] obtain scores
    where "np_dot inner fast_buffer (map narrow random_query) = Inr scores" ..
  then show "\<exists>r. run_throughput narrow inner raw_data random_query = Inr r"
    by (simp add: run_throughput_cases [OF arr])
qed

theorem both_paths_same_scores_witness:
  "\<exists>r scores.
     run_throughput to_single inner_in_order
       (replicate 3 (replicate 4 (1 / 2))) (replicate 4 (1 / 4)) = Inr r
     \<and> np_dot inner_in_order
         (Mat 3 4 (map (map to_single) (replicate 3 (replicate 4 (1 / 2)))))
         (map to_single (replicate 4 (1 / 4))) = Inr scores
     \<and> scores_of (standard r) = replicate 50 scores
     \<and> scores_of (mutatis r) = replicate 50 scores
     \<and> length (standard r) = 100
     \<and> length (mutatis r) = 50"
proof -
  let ?raw = "replicate 3 (replicate 4 (1 / 2 :: rat))"
  let ?buffer = "Mat 3 4 (map (map to_single) ?raw)"
  let ?random_query = "replicate 4 (1 / 4 :: rat)"
  have arr: "np_array to_single ?raw = Inr ?buffer"
    by (rule np_array_shape) simp_all
  have aligned: "last (shape ?buffer) = length ?random_query"
    by simp
  note both = both_paths_same_scores [of to_single inner_in_order ?raw ?random_query]
  from both arr aligned obtain r
    where run: "run_throughput to_single inner_in_order ?raw ?random_query = Inr r"
    by blast
  with both arr obtain scores
    where "np_dot inner_in_order ?buffer (map to_single ?random_query) = Inr scores"
      and "standard r = concat (replicate ITERATIONS [Converted ?buffer, Scores scores])"
      and "mutatis r = replicate ITERATIONS (Scores scores)"
      and "scores_of (standard r) = scores_of (mutatis r)"
      and "scores_of (mutatis r) = replicate ITERATIONS scores"
    by auto
  with run show ?thesis
    by (auto simp: ITERATIONS_def length_concat sum_list_replicate)
qed


end
